theory Spec2Isabelle
  imports Main
begin

section \<open>The API server (app/src/server.ts)\<close>

subsection \<open>JavaScript values, truthiness and \<open>||\<close>\<close>

text \<open>
  The values that can come out of a property read on the object literal \<open>currencyMap\<close>:
  \<open>undefined\<close>, a string, a function (named) or the object \<open>Object.prototype\<close> itself.
\<close>

datatype js_value = Undefined | Str string | Function string | Object_prototype

fun truthy :: "js_value \<Rightarrow> bool" where
  "truthy Undefined = False"
| "truthy (Str s) = (s \<noteq> [])"
| "truthy (Function f) = True"
| "truthy Object_prototype = True"

definition js_or :: "js_value \<Rightarrow> js_value \<Rightarrow> js_value" where
  "js_or a b = (if truthy a then a else b)"

text \<open>
  \<open>x || d\<close> where \<open>x\<close> is a string or \<open>undefined\<close> (a query parameter, an environment
  variable) and \<open>d\<close> a string: \<open>undefined\<close> and the empty string are falsy.
\<close>

fun or_default :: "string option \<Rightarrow> string \<Rightarrow> string" where
  "or_default None d = d"
| "or_default (Some s) d = (if s = [] then d else s)"

subsection \<open>Property lookup on an object literal\<close>

text \<open>
  \<open>obj[key]\<close> on an object literal reads the own property when there is one and otherwise
  follows the prototype chain to \<open>Object.prototype\<close>, whose properties are the functions
  below and the accessor \<open>__proto__\<close>, which yields the prototype of the receiver.
\<close>

definition Object_prototype_get :: "string \<Rightarrow> js_value" where
  "Object_prototype_get key =
     (if key = ''constructor'' then Function ''Object''
      else if key \<in> set [''hasOwnProperty'', ''isPrototypeOf'', ''propertyIsEnumerable'',
                          ''toLocaleString'', ''toString'', ''valueOf'',
                          ''__defineGetter__'', ''__defineSetter__'',
                          ''__lookupGetter__'', ''__lookupSetter__'']
      then Function key
      else if key = ''__proto__'' then Object_prototype
      else Undefined)"

definition get_property :: "(string \<times> string) list \<Rightarrow> string \<Rightarrow> js_value" where
  "get_property obj key =
     (case map_of obj key of Some v \<Rightarrow> Str v | None \<Rightarrow> Object_prototype_get key)"

subsection \<open>getCurrencyForLocale\<close>

definition currencyMap :: "(string \<times> string) list" where
  "currencyMap =
     [(''en-US'', ''USD''), (''en-GB'', ''GBP''), (''fr-FR'', ''EUR''), (''de-DE'', ''EUR''),
      (''ja-JP'', ''JPY''), (''zh-CN'', ''CNY''), (''es-ES'', ''EUR''), (''it-IT'', ''EUR''),
      (''pt-BR'', ''BRL''), (''ko-KR'', ''KRW'')]"

definition getCurrencyForLocale :: "string \<Rightarrow> js_value" where
  "getCurrencyForLocale locale = js_or (get_property currencyMap locale) (Str ''USD'')"

subsection \<open>The runtime the handlers call into\<close>

text \<open>
  A value caught by \<open>catch (error)\<close>: an instance of \<open>Error\<close> with its \<open>message\<close>, or any
  other value with its \<open>String(error)\<close> rendering.
\<close>

datatype js_thrown = Error_instance string | Non_error string

fun catch_message :: "js_thrown \<Rightarrow> string" where
  "catch_message (Error_instance m) = m"
| "catch_message (Non_error s) = s"

subsection \<open>Dates\<close>

text \<open>
  A \<open>Date\<close> holds a time value, the milliseconds since 1970-01-01T00:00:00Z; it is valid
  within 100,000,000 days of the epoch. \<open>toISOString\<close> throws a \<open>RangeError\<close> on an
  invalid date and otherwise writes \<open>YYYY-MM-DDTHH:mm:ss.sssZ\<close> in the proleptic Gregorian
  calendar, the year with four digits when it is in 0..9999 and with a sign and six digits
  when it is not.
\<close>

definition msPerDay :: int where
  "msPerDay = 86400000"

definition valid_time_value :: "int \<Rightarrow> bool" where
  "valid_time_value tv \<longleftrightarrow> - 8640000000000000 \<le> tv \<and> tv \<le> 8640000000000000"

definition Day :: "int \<Rightarrow> int" where
  "Day tv = tv div msPerDay"

definition TimeWithinDay :: "int \<Rightarrow> int" where
  "TimeWithinDay tv = tv mod msPerDay"

text \<open>
  Year, month (1..12) and day of the month of a day number. Days are counted from
  0000-03-01 in eras of 400 years (146097 days), centuries (36524 days, the fourth one day
  longer), groups of four years (1461 days) and years (365 days, the fourth one day
  longer); a year that starts in March has its leap day last.
\<close>

definition civil_from_days :: "int \<Rightarrow> int \<times> int \<times> int" where
  "civil_from_days days =
     (let z = days + 719468;
          era = z div 146097;
          doe = z mod 146097;
          c = min 3 (doe div 36524);
          doc = doe - 36524 * c;
          q = doc div 1461;
          doq = doc mod 1461;
          a = min 3 (doq div 365);
          doy = doq - 365 * a;
          mp = (5 * doy + 2) div 153;
          d = doy - (153 * mp + 2) div 5 + 1;
          m = (if mp < 10 then mp + 3 else mp - 9);
          y = 400 * era + 100 * c + 4 * q + a + (if m \<le> 2 then 1 else 0)
      in (y, m, d))"

text \<open>The decimal digit for the last digit of a number.\<close>

definition digit :: "int \<Rightarrow> char" where
  "digit n = ''0123456789'' ! nat (n mod 10)"

text \<open>\<open>pad k n\<close>: the last \<open>k\<close> decimal digits of \<open>n\<close>, with leading zeros.\<close>

fun pad :: "nat \<Rightarrow> int \<Rightarrow> string" where
  "pad 0 n = []"
| "pad (Suc k) n = pad k (n div 10) @ [digit (n mod 10)]"

definition year_string :: "int \<Rightarrow> string" where
  "year_string y =
     (if 0 \<le> y \<and> y \<le> 9999 then pad 4 y
      else if y < 0 then CHR ''-'' # pad 6 (- y)
      else CHR ''+'' # pad 6 y)"

definition toISOString :: "int \<Rightarrow> js_thrown + string" where
  "toISOString tv =
     (if \<not> valid_time_value tv then Inl (Error_instance ''Invalid time value'')
      else
        (let (y, m, d) = civil_from_days (Day tv);
             t = TimeWithinDay tv
         in Inr (year_string y @ ''-'' @ pad 2 m @ ''-'' @ pad 2 d @ ''T''
                 @ pad 2 (t div 3600000) @ '':'' @ pad 2 (t div 60000 mod 60) @ '':''
                 @ pad 2 (t div 1000 mod 60) @ ''.'' @ pad 3 (t mod 1000) @ ''Z'')))"

text \<open>
  Reading such a string back, as \<open>Date.parse\<close> does for the date-time format: the day
  number of a calendar date, the value of a run of digits, the year in either form, and the
  time value of the whole string. A string of another shape, or with a field out of range,
  is not a date.
\<close>

definition days_from_civil :: "int \<Rightarrow> int \<Rightarrow> int \<Rightarrow> int" where
  "days_from_civil y m d =
     (let y' = y - (if m \<le> 2 then 1 else 0);
          era = y' div 400;
          yoe = y' mod 400;
          mp = (if m > 2 then m - 3 else m + 9);
          doy = (153 * mp + 2) div 5 + d - 1;
          doe = 365 * yoe + yoe div 4 - yoe div 100 + doy
      in 146097 * era + doe - 719468)"

definition digit_value :: "char \<Rightarrow> int option" where
  "digit_value ch = map_of (zip ''0123456789'' (map int [0..<10])) ch"

fun number_from :: "int \<Rightarrow> string \<Rightarrow> int option" where
  "number_from acc [] = Some acc"
| "number_from acc (ch # s) =
     (case digit_value ch of None \<Rightarrow> None | Some d \<Rightarrow> number_from (10 * acc + d) s)"

definition number :: "string \<Rightarrow> int option" where
  "number s = (if s = [] then None else number_from 0 s)"

definition parse_year :: "string \<Rightarrow> int option" where
  "parse_year s =
     (case s of
        [] \<Rightarrow> None
      | ch # ds \<Rightarrow>
          if ch = CHR ''+'' \<and> length ds = 6 then number ds
          else if ch = CHR ''-'' \<and> length ds = 6 then
            (case number ds of None \<Rightarrow> None | Some v \<Rightarrow> if v = 0 then None else Some (- v))
          else if length s = 4 then number s
          else None)"

definition parse_iso8601 :: "string \<Rightarrow> int option" where
  "parse_iso8601 s =
     (let n = length s; ys = take (n - 20) s; r = drop (n - 20) s in
      if n < 24 \<or> r ! 0 \<noteq> CHR ''-'' \<or> r ! 3 \<noteq> CHR ''-'' \<or> r ! 6 \<noteq> CHR ''T'' \<or> r ! 9 \<noteq> CHR '':''
         \<or> r ! 12 \<noteq> CHR '':'' \<or> r ! 15 \<noteq> CHR ''.'' \<or> r ! 19 \<noteq> CHR ''Z'' then None
      else
        (case (parse_year ys, number (take 2 (drop 1 r)), number (take 2 (drop 4 r)),
               number (take 2 (drop 7 r)), number (take 2 (drop 10 r)),
               number (take 2 (drop 13 r)), number (take 3 (drop 16 r))) of
           (Some y, Some m, Some d, Some h, Some mi, Some sec, Some ms) \<Rightarrow>
             if 1 \<le> m \<and> m \<le> 12 \<and> 1 \<le> d \<and> d \<le> 31 \<and> h \<le> 23 \<and> mi \<le> 59 \<and> sec \<le> 59
             then Some (days_from_civil y m d * msPerDay
                        + h * 3600000 + mi * 60000 + sec * 1000 + ms)
             else None
         | _ \<Rightarrow> None))"

subsection \<open>The platform\<close>

text \<open>
  The rest of the platform is a parameter of the model:
  \<^item> \<open>clock\<close>: the time value that \<open>new Date()\<close> captures, the current time;
  \<^item> \<open>dateTimeFormat locale tz now\<close>:
    \<open>new Intl.DateTimeFormat(locale, {dateStyle: "full", timeStyle: "long", timeZone: tz}).format(now)\<close>,
    which throws on an identifier it rejects;
  \<^item> \<open>numberFormat locale currency\<close>:
    \<open>new Intl.NumberFormat(locale, {style: "currency", currency}).format(12345.67)\<close>;
  \<^item> \<open>NODE_ICU_DATA\<close>: the environment variable of that name.
\<close>

record env =
  clock :: int
  dateTimeFormat :: "string \<Rightarrow> string \<Rightarrow> int \<Rightarrow> js_thrown + string"
  numberFormat :: "string \<Rightarrow> js_value \<Rightarrow> js_thrown + string"
  NODE_ICU_DATA :: "string option"

datatype intl_call = DateTimeFormat_call string string | NumberFormat_call string js_value

subsection \<open>Requests and responses\<close>

text \<open>
  \<open>req.query\<close> maps a parameter name to its value; the handler reads each value
  \<open>as string\<close>, so a value is a string or absent. The response starts with status 200
  and no body; \<open>res.status\<close> sets the code and \<open>res.json\<close> the body, an object whose
  fields are all strings here, kept in the order they are written.
\<close>

record request =
  query :: "string \<rightharpoonup> string"

type_synonym json_object = "(string \<times> string) list"

record response =
  statusCode :: nat
  body :: "json_object option"

definition res :: response where
  "res = \<lparr>statusCode = 200, body = None\<rparr>"

definition status :: "nat \<Rightarrow> response \<Rightarrow> response" where
  "status code r = r\<lparr>statusCode := code\<rparr>"

definition json :: "json_object \<Rightarrow> response \<Rightarrow> response" where
  "json obj r = r\<lparr>body := Some obj\<rparr>"

definition field :: "response \<Rightarrow> string \<Rightarrow> string option" where
  "field r k = (case body r of None \<Rightarrow> None | Some obj \<Rightarrow> map_of obj k)"


subsection \<open>GET /api/health\<close>

text \<open>
  The handler has no \<open>try\<close>: if \<open>toISOString\<close> threw, the exception would leave the
  handler (\<open>Inl\<close>) and the handler would send no body.
\<close>

definition health_handler :: "env \<Rightarrow> js_thrown + response" where
  "health_handler e =
     (case toISOString (clock e) of
        Inl error \<Rightarrow> Inl error
      | Inr timestamp \<Rightarrow> Inr (json [(''status'', ''ok''), (''timestamp'', timestamp)] res))"

subsection \<open>GET /api/time\<close>

definition catch_branch :: "js_thrown \<Rightarrow> response" where
  "catch_branch error =
     json [(''error'', ''Invalid locale or timezone''), (''message'', catch_message error)]
       (status 400 res)"

text \<open>
  The handler returns the calls it made into \<open>Intl\<close>, in order, and the response it sent.
  Everything after the two defaults runs inside \<open>try\<close>: a throw of either formatter,
  or of \<open>toISOString\<close>, ends in the \<open>catch\<close> branch.
\<close>

definition time_handler :: "env \<Rightarrow> request \<Rightarrow> intl_call list \<times> response" where
  "time_handler e req =
     (let locale = or_default (query req ''locale'') ''en-US'';
          tz = or_default (query req ''tz'') ''UTC'';
          now = clock e
      in case dateTimeFormat e locale tz now of
           Inl error \<Rightarrow> ([DateTimeFormat_call locale tz], catch_branch error)
         | Inr formatted \<Rightarrow>
             (let currency = getCurrencyForLocale locale;
                  calls = [DateTimeFormat_call locale tz, NumberFormat_call locale currency]
              in case numberFormat e locale currency of
                   Inl error \<Rightarrow> (calls, catch_branch error)
                 | Inr numberFormatted \<Rightarrow>
                     (case toISOString now of
                        Inl error \<Rightarrow> (calls, catch_branch error)
                      | Inr timestamp \<Rightarrow>
                          (calls,
                           json [(''locale'', locale),
                                 (''tz'', tz),
                                 (''formatted'', formatted),
                                 (''numberExample'', numberFormatted),
                                 (''timestamp'', timestamp),
                                 (''icuDataPath'', or_default (NODE_ICU_DATA e) ''built-in'')]
                             res))))"

text \<open>
  A locale/timezone pair is supported by the platform when \<open>Intl.DateTimeFormat\<close>
  formats the current time for it and \<open>Intl.NumberFormat\<close> formats an amount for the
  locale in every well-formed currency code (three letters).
\<close>

definition currency_code :: "string \<Rightarrow> bool" where
  "currency_code c \<longleftrightarrow>
     length c = 3 \<and>
     set c \<subseteq> set ''ABCDEFGHIJKLMNOPQRSTUVWXYZabcdefghijklmnopqrstuvwxyz''"

definition supported :: "env \<Rightarrow> string \<Rightarrow> string \<Rightarrow> bool" where
  "supported e locale tz \<longleftrightarrow>
     (\<exists>s. dateTimeFormat e locale tz (clock e) = Inr s) \<and>
     (\<forall>c. currency_code c \<longrightarrow> (\<exists>s. numberFormat e locale (Str c) = Inr s))"


text \<open>A small platform for concrete runs: it knows two locales and two time zones.\<close>

definition demo_env :: env where
  "demo_env =
     \<lparr>clock = 1793700000000,
      dateTimeFormat = (\<lambda>locale tz now.
         if locale \<notin> set [''en-US'', ''fr-FR'', ''valueOf'']
         then Inl (Error_instance ''Incorrect locale information provided'')
         else if tz \<notin> set [''UTC'', ''Europe/Paris'']
         then Inl (Error_instance (''Invalid time zone specified: '' @ tz))
         else Inr (locale @ '' date in '' @ tz)),
      numberFormat = (\<lambda>locale currency.
         case currency of
           Str c \<Rightarrow> Inr (c @ '' 12,345.67'')
         | _ \<Rightarrow> Inl (Error_instance ''Invalid currency code'')),
      NODE_ICU_DATA = None\<rparr>"


section \<open>The scan script (scripts/scan-image.sh)\<close>

subsection \<open>What the script does to the outside\<close>

text \<open>
  A run is observed as the list of its actions, in order: the arguments of each
  \<open>echo\<close> and \<open>echo -e\<close>, the argument vector of each external process it starts, and the
  lines that the \<open>grep\<close> of the pull pipeline lets through to the terminal.
  The script runs under \<open>set -euo pipefail\<close>: a command that fails ends the run with that
  command's status, unless it stands where the shell ignores failure.
\<close>

datatype event = Echo string | Echo_e string | Exec "string list" | Stdout string

datatype run = Running "event list" | Exited nat "event list"

type_synonym step = "event list \<Rightarrow> run"

fun trace :: "run \<Rightarrow> event list" where
  "trace (Running t) = t"
| "trace (Exited n t) = t"

text \<open>A run that reaches the end of the script exits with the status of its last command, an \<open>echo\<close>.\<close>

fun exit_status :: "run \<Rightarrow> nat" where
  "exit_status (Running t) = 0"
| "exit_status (Exited n t) = n"

fun steps :: "step list \<Rightarrow> step" where
  "steps [] t = Running t"
| "steps (c # cs) t = (case c t of Running t' \<Rightarrow> steps cs t' | Exited n t' \<Rightarrow> Exited n t')"

definition echo :: "string \<Rightarrow> step" where
  "echo s t = Running (t @ [Echo s])"

definition echo_e :: "string \<Rightarrow> step" where
  "echo_e s t = Running (t @ [Echo_e s])"

definition exit_with :: "nat \<Rightarrow> step" where
  "exit_with n t = Exited n t"

text \<open>\<open>set -e\<close>: a non-zero status of a command ends the run.\<close>

definition errexit :: "nat \<Rightarrow> step" where
  "errexit s t = (if s = 0 then Running t else Exited s t)"

text \<open>\<open>a || b\<close>: the status of \<open>a\<close> when it is zero, of \<open>b\<close> otherwise; \<open>true\<close> exits with 0.\<close>

definition or_list :: "nat \<Rightarrow> nat \<Rightarrow> nat" where
  "or_list a b = (if a = 0 then 0 else b)"

definition true_status :: nat where
  "true_status = 0"

text \<open>\<open>set -o pipefail\<close>: a pipeline exits with the status of its last command that failed, or 0.\<close>

fun pipefail :: "nat list \<Rightarrow> nat" where
  "pipefail [] = 0"
| "pipefail (s # ss) = (if pipefail ss \<noteq> 0 then pipefail ss else s)"

text \<open>
  The machine is a parameter:
  \<^item> \<open>trivy_on_path\<close>: whether \<open>command -v trivy\<close> succeeds;
  \<^item> \<open>lsb_release_sc\<close>: what \<open>$(lsb_release -sc)\<close> expands to (empty when the command fails);
  \<^item> \<open>docker_pull image\<close>: the exit status of \<open>docker pull image\<close> and the lines it writes
    (standard output and standard error together, \<open>2>&1\<close>);
  \<^item> \<open>trivy argv\<close>: the exit status of \<open>trivy\<close> run with these arguments.
\<close>

record world =
  trivy_on_path :: bool
  lsb_release_sc :: string
  docker_pull :: "string \<Rightarrow> nat \<times> string list"
  trivy :: "string list \<Rightarrow> nat"

subsection \<open>Colours\<close>

definition RED :: string where
  "RED = CHR 0x5C # ''033[0;31m''"

definition GREEN :: string where
  "GREEN = CHR 0x5C # ''033[0;32m''"

definition YELLOW :: string where
  "YELLOW = CHR 0x5C # ''033[1;33m''"

definition BLUE :: string where
  "BLUE = CHR 0x5C # ''033[0;34m''"

definition CYAN :: string where
  "CYAN = CHR 0x5C # ''033[0;36m''"

definition NC :: string where
  "NC = CHR 0x5C # ''033[0m''"

subsection \<open>The two checks\<close>

definition trivy_missing :: "world \<Rightarrow> step" where
  "trivy_missing w = steps
     [echo_e (RED @ ''Error: Trivy is not installed'' @ NC),
      echo '''',
      echo ''Install Trivy:'',
      echo ''  macOS:   brew install aquasecurity/trivy/trivy'',
      echo ''  Linux:   wget -qO - https://aquasecurity.github.io/trivy-repo/deb/public.key | sudo apt-key add -'',
      (\<lambda>t. Running (t @ [Exec [''lsb_release'', ''-sc'']])),
      echo (''           echo '' @ [CHR 0x27] @ ''deb https://aquasecurity.github.io/trivy-repo/deb ''
            @ lsb_release_sc w @ '' main'' @ [CHR 0x27]
            @ '' | sudo tee -a /etc/apt/sources.list.d/trivy.list''),
      echo ''           sudo apt-get update && sudo apt-get install trivy'',
      echo ''  Docker:  docker run --rm -v /var/run/docker.sock:/var/run/docker.sock aquasec/trivy image <image>'',
      exit_with 1]"

definition usage_line :: "string \<Rightarrow> string" where
  "usage_line prog = ''Usage: '' @ prog @ '' <image-name> [output-file]''"

definition no_image :: "string \<Rightarrow> step" where
  "no_image prog = steps
     [echo_e (RED @ ''Error: No image name provided'' @ NC),
      echo '''',
      echo (usage_line prog),
      echo '''',
      echo ''Examples:'',
      echo (''  '' @ prog @ '' node:20-bookworm''),
      echo (''  '' @ prog @ '' demonstrationorg/dhi-node:22-alpine3.22''),
      echo (''  '' @ prog @ '' dhi-workshop-app-dhi trivy-doi-results.json''),
      exit_with 1]"

subsection \<open>Pulling the image\<close>

fun contains :: "string \<Rightarrow> string \<Rightarrow> bool" where
  "contains [] pat = (pat = [])"
| "contains (c # cs) pat = (take (length pat) (c # cs) = pat \<or> contains cs pat)"

text \<open>\<open>grep -E "(Digest|Status|Image is up to date)"\<close> selects the lines with one of the three texts.\<close>

definition grep_match :: "string \<Rightarrow> bool" where
  "grep_match line \<longleftrightarrow>
     contains line ''Digest'' \<or> contains line ''Status'' \<or> contains line ''Image is up to date''"

text \<open>\<open>grep\<close> exits with 0 when it selected a line and with 1 when it selected none.\<close>

definition pull_status :: "world \<Rightarrow> string \<Rightarrow> nat" where
  "pull_status w IMAGE =
     (let (d, out) = docker_pull w IMAGE;
          g = (if filter grep_match out = [] then 1 else 0)
      in or_list (pipefail [d, g]) true_status)"

definition pull_image :: "world \<Rightarrow> string \<Rightarrow> step" where
  "pull_image w IMAGE t =
     errexit (pull_status w IMAGE)
       (t @ [Exec [''docker'', ''pull'', IMAGE],
             Exec [''grep'', ''-E'', ''(Digest|Status|Image is up to date)'']]
          @ map Stdout (filter grep_match (snd (docker_pull w IMAGE))))"

subsection \<open>Scanning\<close>

definition json_scan :: "string \<Rightarrow> string \<Rightarrow> string list" where
  "json_scan OUTPUT_FILE IMAGE =
     [''image'', ''--severity'', ''HIGH,CRITICAL'', ''--no-progress'', ''--format'', ''json'',
      ''-o'', OUTPUT_FILE, IMAGE]"

definition table_scan :: "string \<Rightarrow> string list" where
  "table_scan IMAGE =
     [''image'', ''--severity'', ''HIGH,CRITICAL'', ''--no-progress'', ''--format'', ''table'', IMAGE]"

definition run_trivy :: "world \<Rightarrow> string list \<Rightarrow> step" where
  "run_trivy w argv t = errexit (trivy w argv) (t @ [Exec (''trivy'' # argv)])"

definition scan :: "world \<Rightarrow> string \<Rightarrow> string \<Rightarrow> step" where
  "scan w IMAGE OUTPUT_FILE =
     (if OUTPUT_FILE \<noteq> [] then steps
        [echo_e (BLUE @ ''Saving results to: '' @ OUTPUT_FILE @ NC),
         echo '''',
         run_trivy w (json_scan OUTPUT_FILE IMAGE),
         run_trivy w (table_scan IMAGE),
         echo '''',
         echo_e (GREEN @ ''Results saved to: '' @ OUTPUT_FILE @ NC)]
      else steps
        [run_trivy w (table_scan IMAGE)])"

definition additional_information :: "string \<Rightarrow> step" where
  "additional_information IMAGE = steps
     [echo_e (BLUE @ ''Additional scan options:'' @ NC),
      echo '''',
      echo_e (GREEN @ ''Save results to file (JSON):'' @ NC),
      echo (''  trivy image --severity HIGH,CRITICAL --format json -o trivy-results.json '' @ IMAGE),
      echo '''',
      echo_e (GREEN @ ''Save results to file (Table):'' @ NC),
      echo (''  trivy image --severity HIGH,CRITICAL --format table -o trivy-results.txt '' @ IMAGE),
      echo '''',
      echo_e (GREEN @ ''Include MEDIUM severity:'' @ NC),
      echo (''  trivy image --severity MEDIUM,HIGH,CRITICAL '' @ IMAGE),
      echo '''',
      echo_e (GREEN @ ''Generate SARIF output for GitHub Actions:'' @ NC),
      echo (''  trivy image --format sarif -o trivy-results.sarif '' @ IMAGE),
      echo '''',
      echo_e (GREEN @ ''Compare with Docker Scout (save to file):'' @ NC),
      echo ''  docker scout compare --to node:20-bookworm demonstrationorg/dhi-node:22-alpine3.22 --format markdown > scout-comparison.md'',
      echo '''']"

subsection \<open>The script\<close>

text \<open>
  \<open>prog\<close> is \<open>$0\<close> and \<open>args\<close> the positional parameters. \<open>IMAGE="$1"\<close> would stop the
  script under \<open>set -u\<close> if there were no first parameter; \<open>${2:-}\<close> is empty when the
  second is missing.
\<close>

definition scan_main :: "world \<Rightarrow> string list \<Rightarrow> step" where
  "scan_main w args =
     (case args of
        [] \<Rightarrow> exit_with 1
      | IMAGE # rest \<Rightarrow>
          (let OUTPUT_FILE = (case rest of [] \<Rightarrow> [] | f # _ \<Rightarrow> f) in steps
             [echo_e (CYAN @ ''================================================='' @ NC),
              echo_e (CYAN @ ''    Scanning Image: '' @ IMAGE @ NC),
              echo_e (CYAN @ ''================================================='' @ NC),
              echo '''',
              echo_e (YELLOW @ ''Ensuring image is available locally...'' @ NC),
              pull_image w IMAGE,
              echo '''',
              echo_e (YELLOW @ ''Running Trivy scan (HIGH and CRITICAL vulnerabilities)...'' @ NC),
              echo '''',
              scan w IMAGE OUTPUT_FILE,
              echo '''',
              echo_e (CYAN @ ''================================================='' @ NC),
              echo_e (GREEN @ ''Scan complete!'' @ NC),
              echo_e (CYAN @ ''================================================='' @ NC),
              echo '''',
              additional_information IMAGE]))"

definition scan_image :: "world \<Rightarrow> string \<Rightarrow> string list \<Rightarrow> run" where
  "scan_image w prog args = steps
     [if \<not> trivy_on_path w then trivy_missing w else steps [],
      if length args = 0 then no_image prog else steps [],
      scan_main w args] []"

subsection \<open>Observations on a run\<close>

definition prints_usage :: "string \<Rightarrow> run \<Rightarrow> bool" where
  "prints_usage prog r \<longleftrightarrow> Echo (usage_line prog) \<in> set (trace r)"

fun is_trivy :: "event \<Rightarrow> bool" where
  "is_trivy (Exec (p # argv)) = (p = ''trivy'')"
| "is_trivy _ = False"

fun is_docker_pull :: "event \<Rightarrow> bool" where
  "is_docker_pull (Exec (p # q # argv)) = (p = ''docker'' \<and> q = ''pull'')"
| "is_docker_pull _ = False"

definition scans :: "run \<Rightarrow> event list" where
  "scans r = filter is_trivy (trace r)"

text \<open>The pulls and scans of a run, in the order they were started.\<close>

definition pulls_and_scans :: "run \<Rightarrow> event list" where
  "pulls_and_scans r = filter (\<lambda>ev. is_docker_pull ev \<or> is_trivy ev) (trace r)"

definition trivy_error_line :: string where
  "trivy_error_line = RED @ ''Error: Trivy is not installed'' @ NC"

text \<open>
  The scanner is not part of the repository. The model takes one fact from its interface:
  a scan started with \<open>-o PATH\<close> that exits with status 0 has written its report to
  \<open>PATH\<close>. \<open>reports_written\<close> lists the files a run leaves behind in this way.
\<close>

fun output_option :: "string list \<Rightarrow> string option" where
  "output_option (a # p # argv) = (if a = ''-o'' then Some p else output_option (p # argv))"
| "output_option _ = None"

definition report_of :: "world \<Rightarrow> event \<Rightarrow> string option" where
  "report_of w ev =
     (case ev of
        Exec (p # argv) \<Rightarrow>
          if p = ''trivy'' \<and> trivy w argv = 0 then output_option argv else None
      | _ \<Rightarrow> None)"

definition reports_written :: "world \<Rightarrow> run \<Rightarrow> string list" where
  "reports_written w r = List.map_filter (report_of w) (trace r)"

text \<open>Machines for concrete runs.\<close>

definition no_trivy_world :: world where
  "no_trivy_world =
     \<lparr>trivy_on_path = False, lsb_release_sc = ''bookworm'',
      docker_pull = (\<lambda>IMAGE. (0, [''Status: Image is up to date for '' @ IMAGE])),
      trivy = (\<lambda>argv. 0)\<rparr>"

definition good_world :: world where
  "good_world =
     \<lparr>trivy_on_path = True, lsb_release_sc = ''bookworm'',
      docker_pull = (\<lambda>IMAGE. (0, [''Using default tag: latest'',
                                    ''Status: Image is up to date for '' @ IMAGE])),
      trivy = (\<lambda>argv. 0)\<rparr>"

text \<open>Here the image does not exist: the pull fails and so does every scan.\<close>

definition missing_image_world :: world where
  "missing_image_world =
     \<lparr>trivy_on_path = True, lsb_release_sc = ''bookworm'',
      docker_pull = (\<lambda>IMAGE. (1, [''Error response from daemon: pull access denied for '' @ IMAGE])),
      trivy = (\<lambda>argv. 1)\<rparr>"

section \<open>Properties of dates\<close>

text \<open>
  Every valid time value is written by \<open>toISOString\<close> as a string that reads back as the
  same time value. The lemmas lead there: digits and padded numbers read back, the calendar
  date of a day number has that day number and lies in the ranges of a month and a day, the
  year of a valid date has at most six digits, and the fields of a day fit their two and
  three columns.
\<close>

lemma digit_value_digit:
  "digit_value (digit n) = Some (n mod 10)"
proof -
  have k: "nat (n mod 10) < 10" by simp
  have "digit_value (digit n) = Some (map int [0..<10] ! nat (n mod 10))"
    unfolding digit_value_def digit_def
    by (rule map_of_zip_nth) (simp_all add: k)
  also have "map int [0..<10] ! nat (n mod 10) = n mod 10"
    using k by (simp del: upt_Suc)
  finally show ?thesis .
qed

lemma length_pad [simp]:
  "length (pad k n) = k"
  by (induction k arbitrary: n) simp_all

lemma number_from_append:
  "number_from acc (s @ t) =
     (case number_from acc s of None \<Rightarrow> None | Some v \<Rightarrow> number_from v t)"
  by (induction s arbitrary: acc) (simp_all split: option.splits)

lemma number_from_pad:
  assumes "0 \<le> n" and "n < 10 ^ k"
  shows "number_from acc (pad k n) = Some (acc * 10 ^ k + n)"
  using assms
proof (induction k arbitrary: n)
  case 0
  then show ?case by simp
next
  case (Suc k)
  have d: "0 \<le> n div 10" "n div 10 < 10 ^ k"
    using Suc.prems by simp_all
  have "number_from acc (pad (Suc k) n) =
          number_from (acc * 10 ^ k + n div 10) [digit (n mod 10)]"
    by (simp add: number_from_append Suc.IH [OF d])
  also have "\<dots> = Some (10 * (acc * 10 ^ k + n div 10) + n mod 10)"
    by (simp add: digit_value_digit)
  also have "10 * (acc * 10 ^ k + n div 10) + n mod 10 = acc * 10 ^ Suc k + n"
    by (simp add: algebra_simps)
  finally show ?case .
qed

lemma number_pad:
  assumes "0 < k" and "0 \<le> n" and "n < 10 ^ k"
  shows "number (pad k n) = Some n"
proof -
  have "pad k n \<noteq> []" using assms(1) by (cases k) simp_all
  then show ?thesis
    by (simp add: number_def number_from_pad [OF assms(2,3)])
qed

lemma divmod_facts:
  fixes x k :: int
  assumes "0 < k"
  shows "x = k * (x div k) + x mod k" and "0 \<le> x mod k" and "x mod k < k"
  using assms by simp_all

lemma civil_from_days_inverse:
  assumes "civil_from_days days = (y, m, d)"
  shows "days_from_civil y m d = days \<and> 1 \<le> m \<and> m \<le> 12 \<and> 1 \<le> d \<and> d \<le> 31"
proof -
  define z where "z = days + 719468"
  define era where "era = z div 146097"
  define doe where "doe = z mod 146097"
  define c0 where "c0 = doe div 36524"
  define c where "c = min 3 c0"
  define doc where "doc = doe - 36524 * c"
  define q where "q = doc div 1461"
  define doq where "doq = doc mod 1461"
  define a0 where "a0 = doq div 365"
  define a where "a = min 3 a0"
  define doy where "doy = doq - 365 * a"
  define mp where "mp = (5 * doy + 2) div 153"
  define e where "e = (153 * mp + 2) div 5"
  have z: "z = 146097 * era + doe" and doe: "0 \<le> doe" "doe < 146097"
    unfolding era_def doe_def by (rule divmod_facts; simp)+
  have c0: "doe = 36524 * c0 + doe mod 36524" "0 \<le> doe mod 36524" "doe mod 36524 < 36524"
    unfolding c0_def by (rule divmod_facts; simp)+
  have c0': "0 \<le> c0" "c0 \<le> 4"
    using c0 doe by linarith+
  have c: "0 \<le> c" "c \<le> 3" and doc: "0 \<le> doc" "doc \<le> 36524"
    using c0 c0' doe unfolding c_def doc_def min_def by (simp_all split: if_splits) linarith+
  have docq: "doc = 1461 * q + doq" and doq: "0 \<le> doq" "doq < 1461"
    unfolding q_def doq_def by (rule divmod_facts; simp)+
  have q: "0 \<le> q" "q \<le> 24"
    using docq doq doc by linarith+
  have a0: "doq = 365 * a0 + doq mod 365" "0 \<le> doq mod 365" "doq mod 365 < 365"
    unfolding a0_def by (rule divmod_facts; simp)+
  have a0': "0 \<le> a0" "a0 \<le> 4"
    using a0 doq by linarith+
  have a: "0 \<le> a" "a \<le> 3" and doy: "0 \<le> doy" "doy \<le> 365"
    using a0 a0' doq unfolding a_def doy_def min_def by (simp_all split: if_splits) linarith+
  have mpd: "5 * doy + 2 = 153 * mp + (5 * doy + 2) mod 153"
    "0 \<le> (5 * doy + 2) mod 153" "(5 * doy + 2) mod 153 < 153"
    unfolding mp_def by (rule divmod_facts; simp)+
  have mp: "0 \<le> mp" "mp \<le> 11"
    using mpd doy by linarith+
  have ed: "153 * mp + 2 = 5 * e + (153 * mp + 2) mod 5"
    "0 \<le> (153 * mp + 2) mod 5" "(153 * mp + 2) mod 5 < 5"
    unfolding e_def by (rule divmod_facts; simp)+
  have m: "m = (if mp < 10 then mp + 3 else mp - 9)"
    and d: "d = doy - e + 1"
    and y: "y = 400 * era + 100 * c + 4 * q + a + (if m \<le> 2 then 1 else 0)"
    using assms
    unfolding civil_from_days_def Let_def e_def mp_def doy_def a_def a0_def doq_def q_def
      doc_def c_def c0_def doe_def era_def z_def
    by (simp_all only: prod.inject) blast+
  define yoe where "yoe = 100 * c + 4 * q + a"
  have yoe: "0 \<le> yoe" "yoe < 400"
    using c q a by (simp_all add: yoe_def)
  have y': "y - (if m \<le> 2 then 1 else 0) = yoe + era * 400"
    by (simp add: y yoe_def)
  have era': "(yoe + era * 400) div 400 = era" and yoe': "(yoe + era * 400) mod 400 = yoe"
    using yoe by simp_all
  have "yoe = (4 * q + a) + c * 100" by (simp add: yoe_def)
  moreover have "0 \<le> 4 * q + a" "4 * q + a < 100" using q a by linarith+
  ultimately have yoe100: "yoe div 100 = c" by simp
  have "yoe = a + (25 * c + q) * 4" by (simp add: yoe_def)
  moreover have "0 \<le> a" "a < 4" using a by linarith+
  ultimately have yoe4: "yoe div 4 = 25 * c + q" by simp
  have mp': "(if m > 2 then m - 3 else m + 9) = mp"
    using mp by (simp add: m)
  have range: "1 \<le> m" "m \<le> 12" "1 \<le> d" "d \<le> 31"
    using mp mpd ed by (simp_all add: m d)
  have "days_from_civil y m d =
          146097 * era + (365 * yoe + yoe div 4 - yoe div 100 + (e + d - 1)) - 719468"
    using yoe by (simp add: days_from_civil_def Let_def y' era' yoe' mp' e_def)
  also have "\<dots> = 146097 * era + (365 * yoe + (25 * c + q) - c + (e + d - 1)) - 719468"
    by (simp only: yoe4 yoe100)
  also have "\<dots> = 146097 * era + (36524 * c + (1461 * q + (365 * a + doy))) - 719468"
    by (simp add: d yoe_def)
  also have "\<dots> = z - 719468"
    using docq by (simp add: z doc_def doy_def)
  finally have "days_from_civil y m d = days" by (simp add: z_def)
  with range show ?thesis by simp
qed

lemma pad2:
  "pad 2 n = [digit (n div 10 mod 10), digit (n mod 10)]"
  by (simp add: eval_nat_numeral)

lemma pad3:
  "pad 3 n = [digit (n div 10 div 10 mod 10), digit (n div 10 mod 10), digit (n mod 10)]"
  by (simp add: eval_nat_numeral)

lemma digit_not_sign:
  "digit n \<noteq> CHR ''+''" "digit n \<noteq> CHR ''-''"
proof -
  have "digit n \<in> set ''0123456789''"
    unfolding digit_def by (rule nth_mem) simp
  then show "digit n \<noteq> CHR ''+''" "digit n \<noteq> CHR ''-''" by auto
qed

lemma parse_year_year_string:
  assumes "- 999999 \<le> y" and "y \<le> 999999"
  shows "parse_year (year_string y) = Some y"
proof -
  consider "0 \<le> y \<and> y \<le> 9999" | "y < 0" | "9999 < y" by linarith
  then show ?thesis
  proof cases
    case 1
    then have n: "number (pad 4 y) = Some y"
      by (intro number_pad) simp_all
    obtain ch ds where p: "pad 4 y = digit ch # ds"
      by (simp add: eval_nat_numeral)
    from 1 n show ?thesis
      using length_pad [of 4 y]
      by (simp add: parse_year_def year_string_def p digit_not_sign del: length_pad)
  next
    case 2
    with assms have "number (pad 6 (- y)) = Some (- y)"
      by (intro number_pad) simp_all
    with 2 show ?thesis
      by (simp add: parse_year_def year_string_def)
  next
    case 3
    with assms have "number (pad 6 y) = Some y"
      by (intro number_pad) simp_all
    with 3 show ?thesis
      by (simp add: parse_year_def year_string_def)
  qed
qed

lemma length_year_string:
  "4 \<le> length (year_string y)"
  by (simp add: year_string_def)

lemma parse_iso8601_fields:
  assumes y: "parse_year ys = Some y" and l: "4 \<le> length ys"
    and m: "1 \<le> m" "m \<le> 12" and d: "1 \<le> d" "d \<le> 31"
    and h: "0 \<le> h" "h \<le> 23" and mi: "0 \<le> mi" "mi \<le> 59"
    and sec: "0 \<le> sec" "sec \<le> 59" and ms: "0 \<le> ms" "ms \<le> 999"
  shows "parse_iso8601
           (ys @ ''-'' @ pad 2 m @ ''-'' @ pad 2 d @ ''T'' @ pad 2 h @ '':'' @ pad 2 mi @ '':''
              @ pad 2 sec @ ''.'' @ pad 3 ms @ ''Z'') =
         Some (days_from_civil y m d * msPerDay + h * 3600000 + mi * 60000 + sec * 1000 + ms)"
proof -
  define r where
    "r = ''-'' @ pad 2 m @ ''-'' @ pad 2 d @ ''T'' @ pad 2 h @ '':'' @ pad 2 mi @ '':''
           @ pad 2 sec @ ''.'' @ pad 3 ms @ ''Z''"
  have len: "length r = 20" by (simp add: r_def)
  have n: "length (ys @ r) - 20 = length ys" "\<not> length (ys @ r) < 24"
    using l by (simp_all add: len)
  have nm: "number (take 2 (drop 1 r)) = Some m" "number (take 2 (drop 4 r)) = Some d"
    "number (take 2 (drop 7 r)) = Some h" "number (take 2 (drop 10 r)) = Some mi"
    "number (take 2 (drop 13 r)) = Some sec" "number (take 3 (drop 16 r)) = Some ms"
  proof -
    have tk: "take 2 (drop 1 r) = pad 2 m" "take 2 (drop 4 r) = pad 2 d"
      "take 2 (drop 7 r) = pad 2 h" "take 2 (drop 10 r) = pad 2 mi"
      "take 2 (drop 13 r) = pad 2 sec" "take 3 (drop 16 r) = pad 3 ms"
      by (simp_all add: r_def pad2 pad3)
    show "number (take 2 (drop 1 r)) = Some m" "number (take 2 (drop 4 r)) = Some d"
      "number (take 2 (drop 7 r)) = Some h" "number (take 2 (drop 10 r)) = Some mi"
      "number (take 2 (drop 13 r)) = Some sec" "number (take 3 (drop 16 r)) = Some ms"
      unfolding tk using m d h mi sec ms by (simp_all add: number_pad)
  qed
  have sep: "r ! 0 = CHR ''-''" "r ! 3 = CHR ''-''" "r ! 6 = CHR ''T''" "r ! 9 = CHR '':''"
    "r ! 12 = CHR '':''" "r ! 15 = CHR ''.''" "r ! 19 = CHR ''Z''"
    by (simp_all add: r_def pad2 pad3)
  have "parse_iso8601 (ys @ r) =
          Some (days_from_civil y m d * msPerDay + h * 3600000 + mi * 60000 + sec * 1000 + ms)"
  proof -
    have nm1: "number (take 2 (drop (Suc 0) r)) = Some m" using nm(1) by simp
    show ?thesis
      unfolding parse_iso8601_def Let_def n
      using m d h mi sec l by (simp add: y nm nm1 sep len)
  qed
  then show ?thesis by (simp add: r_def)
qed

lemma time_within_day:
  fixes t :: int
  assumes "0 \<le> t" and "t < 86400000"
  shows "0 \<le> t div 3600000" "t div 3600000 \<le> 23"
    "t div 3600000 * 3600000 + t div 60000 mod 60 * 60000 + t div 1000 mod 60 * 1000 + t mod 1000 = t"
proof -
  show "0 \<le> t div 3600000" using assms by simp
  show "t div 3600000 \<le> 23" using assms by simp
  have a: "t = 1000 * (t div 1000) + t mod 1000" by simp
  have b: "t div 1000 = 60 * (t div 1000 div 60) + t div 1000 mod 60" by simp
  have c: "t div 1000 div 60 = 60 * (t div 1000 div 60 div 60) + t div 1000 div 60 mod 60" by simp
  have d: "t div 60000 = t div 1000 div 60" "t div 3600000 = t div 1000 div 60 div 60"
    by (simp_all add: div_mult2_eq [symmetric])
  show "t div 3600000 * 3600000 + t div 60000 mod 60 * 60000 + t div 1000 mod 60 * 1000 + t mod 1000 = t"
    unfolding d using a b c by linarith
qed

lemma year_bound:
  assumes "days_from_civil y m d = days" and "1 \<le> m" "m \<le> 12" "1 \<le> d" "d \<le> 31"
    and "- 100000000 \<le> days" "days \<le> 100000000"
  shows "- 999999 \<le> y" "y \<le> 999999"
proof -
  define y' where "y' = y - (if m \<le> 2 then 1 else 0)"
  define mp where "mp = (if m > 2 then m - 3 else m + 9)"
  define e where "e = (153 * mp + 2) div 5"
  define yoe where "yoe = y' mod 400"
  have mp: "0 \<le> mp" "mp \<le> 11" using assms(2,3) by (simp_all add: mp_def)
  have ed: "153 * mp + 2 = 5 * e + (153 * mp + 2) mod 5"
    "0 \<le> (153 * mp + 2) mod 5" "(153 * mp + 2) mod 5 < 5"
    unfolding e_def by (rule divmod_facts; simp)+
  have e: "0 \<le> e" "e \<le> 400" using ed mp by linarith+
  have y'd: "y' = 400 * (y' div 400) + yoe" and yoe: "0 \<le> yoe" "yoe < 400"
    unfolding yoe_def by (rule divmod_facts; simp)+
  have q4: "yoe = 4 * (yoe div 4) + yoe mod 4" "0 \<le> yoe mod 4" "yoe mod 4 < 4"
    by (rule divmod_facts; simp)+
  have q100: "yoe = 100 * (yoe div 100) + yoe mod 100" "0 \<le> yoe mod 100" "yoe mod 100 < 100"
    by (rule divmod_facts; simp)+
  have "days = 146097 * (y' div 400) + (365 * yoe + yoe div 4 - yoe div 100 + (e + d - 1)) - 719468"
    using assms(1)
    by (simp add: days_from_civil_def Let_def y'_def [symmetric] mp_def [symmetric]
        e_def [symmetric] yoe_def [symmetric])
  then have "- 1000 \<le> y' div 400 \<and> y' div 400 \<le> 1000"
    using assms(4-7) e yoe q4 q100 by linarith
  then have "- 500000 \<le> y' \<and> y' \<le> 500000" using y'd yoe by linarith
  then show "- 999999 \<le> y" "y \<le> 999999" by (simp_all add: y'_def split: if_splits)
qed

lemma toISOString_parses:
  assumes "valid_time_value tv"
  shows "\<exists>s. toISOString tv = Inr s \<and> parse_iso8601 s = Some tv"
proof -
  obtain y m d where c: "civil_from_days (Day tv) = (y, m, d)"
    by (cases "civil_from_days (Day tv)") auto
  note inv = civil_from_days_inverse [OF c]
  define t where "t = TimeWithinDay tv"
  have t: "0 \<le> t" "t < 86400000" by (simp_all add: t_def TimeWithinDay_def msPerDay_def)
  have tv: "tv = Day tv * msPerDay + t"
    by (simp add: t_def TimeWithinDay_def Day_def msPerDay_def)
  have days: "- 100000000 \<le> Day tv" "Day tv \<le> 100000000"
  proof -
    have "tv = 86400000 * (tv div 86400000) + tv mod 86400000"
      "0 \<le> tv mod 86400000" "tv mod 86400000 < 86400000"
      by (rule divmod_facts; simp)+
    then show "- 100000000 \<le> Day tv" "Day tv \<le> 100000000"
      using assms unfolding valid_time_value_def Day_def msPerDay_def by linarith+
  qed
  have yb: "- 999999 \<le> y" "y \<le> 999999"
    using year_bound [of y m d "Day tv"] inv days by simp_all
  have "parse_iso8601
           (year_string y @ ''-'' @ pad 2 m @ ''-'' @ pad 2 d @ ''T'' @ pad 2 (t div 3600000)
              @ '':'' @ pad 2 (t div 60000 mod 60) @ '':'' @ pad 2 (t div 1000 mod 60)
              @ ''.'' @ pad 3 (t mod 1000) @ ''Z'') =
         Some (days_from_civil y m d * msPerDay + t div 3600000 * 3600000
               + t div 60000 mod 60 * 60000 + t div 1000 mod 60 * 1000 + t mod 1000)"
    using inv time_within_day(1,2) [OF t]
    by (intro parse_iso8601_fields parse_year_year_string [OF yb] length_year_string) simp_all
  also have "\<dots> = Some tv"
    using inv time_within_day(3) [OF t] tv by simp
  finally show ?thesis
    using assms by (simp add: toISOString_def c t_def [symmetric])
qed

section \<open>Properties of the API server\<close>

subsection \<open>The currency table\<close>

lemma getCurrencyForLocale_table:
  "getCurrencyForLocale ''en-US'' = Str ''USD''"
  "getCurrencyForLocale ''en-GB'' = Str ''GBP''"
  "getCurrencyForLocale ''fr-FR'' = Str ''EUR''"
  "getCurrencyForLocale ''de-DE'' = Str ''EUR''"
  "getCurrencyForLocale ''ja-JP'' = Str ''JPY''"
  "getCurrencyForLocale ''zh-CN'' = Str ''CNY''"
  "getCurrencyForLocale ''es-ES'' = Str ''EUR''"
  "getCurrencyForLocale ''it-IT'' = Str ''EUR''"
  "getCurrencyForLocale ''pt-BR'' = Str ''BRL''"
  "getCurrencyForLocale ''ko-KR'' = Str ''KRW''"
  by (simp_all add: getCurrencyForLocale_def get_property_def currencyMap_def js_or_def)

lemma getCurrencyForLocale_fallback:
  assumes "map_of currencyMap locale = None" and "Object_prototype_get locale = Undefined"
  shows "getCurrencyForLocale locale = Str ''USD''"
  using assms by (simp add: getCurrencyForLocale_def get_property_def js_or_def)

lemma getCurrencyForLocale_currency_code:
  assumes "Object_prototype_get locale = Undefined"
  shows "\<exists>c. getCurrencyForLocale locale = Str c \<and> currency_code c"
proof (cases "map_of currencyMap locale")
  case None
  from None assms have "getCurrencyForLocale locale = Str ''USD''"
    by (rule getCurrencyForLocale_fallback)
  then show ?thesis by (simp add: currency_code_def)
next
  case (Some v)
  then have "(locale, v) \<in> set currencyMap" by (rule map_of_SomeD)
  then have "v \<in> set [''USD'', ''GBP'', ''EUR'', ''JPY'', ''CNY'', ''BRL'', ''KRW'']"
    by (auto simp add: currencyMap_def)
  then have "currency_code v \<and> v \<noteq> []"
    by (auto simp add: currency_code_def)
  with Some show ?thesis
    by (simp add: getCurrencyForLocale_def get_property_def js_or_def)
qed

text \<open>
  C8. \<open>getCurrencyForLocale\<close> is meant to return the currency code of each of the ten
  keys of its map and \<open>"USD"\<close> for every other string. The lookup \<open>currencyMap[locale]\<close>
  also finds what the object literal inherits: for \<open>"toString"\<close>, which is not a key of the
  map, the function returns the inherited function object, a truthy value that is not a
  string, and not \<open>"USD"\<close>.
\<close>

theorem getCurrencyForLocale_inherited:
  "map_of currencyMap ''toString'' = None \<and>
   getCurrencyForLocale ''toString'' = Function ''toString'' \<and>
   getCurrencyForLocale ''toString'' \<noteq> Str ''USD''"
  by (simp add: getCurrencyForLocale_def get_property_def currencyMap_def js_or_def
      Object_prototype_get_def)

subsection \<open>GET /api/health\<close>

lemma demo_timestamp:
  "toISOString 1793700000000 = Inr ''2026-11-03T10:00:00.000Z''"
  by code_simp

text \<open>
  C4. Every request to \<open>GET /api/health\<close>, served while the clock of the platform shows a
  valid time value, is answered with status 200 and a body of the two fields \<open>status\<close>,
  equal to \<open>"ok"\<close>, and \<open>timestamp\<close>, the ISO-8601 string that \<open>toISOString\<close> writes for
  the current time and that parses back to exactly that time; the exception that
  \<open>toISOString\<close> has for an invalid date does not occur, so the handler has no other
  outcome.
\<close>

theorem health_handler_ok:
  assumes "valid_time_value (clock e)"
  shows "\<exists>timestamp.
           health_handler e =
             Inr \<lparr>statusCode = 200,
                  body = Some [(''status'', ''ok''), (''timestamp'', timestamp)]\<rparr> \<and>
           toISOString (clock e) = Inr timestamp \<and>
           parse_iso8601 timestamp = Some (clock e)"
proof -
  from toISOString_parses [OF assms] obtain s
    where "toISOString (clock e) = Inr s" and "parse_iso8601 s = Some (clock e)" by blast
  then show ?thesis
    by (simp add: health_handler_def json_def res_def)
qed

theorem health_handler_ok_witness:
  "valid_time_value (clock demo_env) \<and>
   health_handler demo_env =
     Inr \<lparr>statusCode = 200,
          body = Some [(''status'', ''ok''), (''timestamp'', ''2026-11-03T10:00:00.000Z'')]\<rparr> \<and>
   parse_iso8601 ''2026-11-03T10:00:00.000Z'' = Some 1793700000000"
proof -
  have c: "clock demo_env = 1793700000000" by (simp add: demo_env_def)
  have v: "valid_time_value (clock demo_env)" by (simp add: c valid_time_value_def)
  from health_handler_ok [OF v] v show ?thesis
    by (auto simp add: c demo_timestamp)
qed

subsection \<open>GET /api/time\<close>

text \<open>
  For a pair the platform supports the handler answers with status 200 and exactly the
  six fields, \<open>formatted\<close> and \<open>numberExample\<close> being what the two formatters return,
  provided the locale is not the name of a property that \<open>currencyMap\<close> inherits.
\<close>

lemma time_handler_supported_elsewhere:
  assumes "query req ''locale'' = Some locale" and "query req ''tz'' = Some tz"
    and "locale \<noteq> []" and "tz \<noteq> []"
    and "supported e locale tz"
    and "Object_prototype_get locale = Undefined"
    and "valid_time_value (clock e)"
  shows "\<exists>formatted currency numberExample timestamp.
           dateTimeFormat e locale tz (clock e) = Inr formatted \<and>
           getCurrencyForLocale locale = Str currency \<and>
           numberFormat e locale (Str currency) = Inr numberExample \<and>
           toISOString (clock e) = Inr timestamp \<and>
           snd (time_handler e req) =
             \<lparr>statusCode = 200,
              body = Some [(''locale'', locale), (''tz'', tz), (''formatted'', formatted),
                           (''numberExample'', numberExample),
                           (''timestamp'', timestamp),
                           (''icuDataPath'', or_default (NODE_ICU_DATA e) ''built-in'')]\<rparr>"
proof -
  from assms(5) obtain formatted where f: "dateTimeFormat e locale tz (clock e) = Inr formatted"
    by (auto simp add: supported_def)
  from getCurrencyForLocale_currency_code [OF assms(6)] obtain currency
    where c: "getCurrencyForLocale locale = Str currency" and cc: "currency_code currency"
    by blast
  from assms(5) cc obtain numberExample
    where n: "numberFormat e locale (Str currency) = Inr numberExample"
    by (auto simp add: supported_def)
  from toISOString_parses [OF assms(7)] obtain timestamp
    where t: "toISOString (clock e) = Inr timestamp" by blast
  have "snd (time_handler e req) =
             \<lparr>statusCode = 200,
              body = Some [(''locale'', locale), (''tz'', tz), (''formatted'', formatted),
                           (''numberExample'', numberExample),
                           (''timestamp'', timestamp),
                           (''icuDataPath'', or_default (NODE_ICU_DATA e) ''built-in'')]\<rparr>"
    using assms(1-4) by (simp add: time_handler_def Let_def f c n t json_def res_def)
  with f c n t show ?thesis by blast
qed

text \<open>
  C1. For every supported locale/timezone pair given as query parameters the handler is to
  answer with status 200 and the six fields. It does not for the locale \<open>valueOf\<close>: on a
  platform that supports the pair \<open>valueOf\<close>, \<open>UTC\<close>, the handler takes the inherited
  function \<open>valueOf\<close> for the currency, \<open>Intl.NumberFormat\<close> rejects it, and the answer is
  status 400 with an error body.
\<close>

theorem time_handler_inherited_locale:
  "supported demo_env ''valueOf'' ''UTC'' \<and>
   time_handler demo_env \<lparr>query = [''locale'' \<mapsto> ''valueOf'', ''tz'' \<mapsto> ''UTC'']\<rparr> =
     ([DateTimeFormat_call ''valueOf'' ''UTC'',
       NumberFormat_call ''valueOf'' (Function ''valueOf'')],
      \<lparr>statusCode = 400,
       body = Some [(''error'', ''Invalid locale or timezone''),
                    (''message'', ''Invalid currency code'')]\<rparr>)"
  by (simp add: supported_def time_handler_def Let_def demo_env_def getCurrencyForLocale_def
      get_property_def currencyMap_def js_or_def Object_prototype_get_def catch_branch_def
      json_def status_def res_def)

theorem time_handler_inherited_locale_witness:
  "currency_code ''USD'' \<and>
   dateTimeFormat demo_env ''valueOf'' ''UTC'' (clock demo_env) = Inr ''valueOf date in UTC'' \<and>
   numberFormat demo_env ''valueOf'' (Str ''USD'') = Inr ''USD 12,345.67'' \<and>
   statusCode
     (snd (time_handler demo_env \<lparr>query = [''locale'' \<mapsto> ''valueOf'', ''tz'' \<mapsto> ''UTC'']\<rparr>)) = 400"
proof -
  have c: "currency_code ''USD''" by (simp add: currency_code_def)
  have p: "dateTimeFormat demo_env ''valueOf'' ''UTC'' (clock demo_env) = Inr ''valueOf date in UTC''"
    "numberFormat demo_env ''valueOf'' (Str ''USD'') = Inr ''USD 12,345.67''"
    by (simp_all add: demo_env_def)
  from time_handler_inherited_locale
  have "statusCode
     (snd (time_handler demo_env \<lparr>query = [''locale'' \<mapsto> ''valueOf'', ''tz'' \<mapsto> ''UTC'']\<rparr>)) = 400"
    by simp
  with c p show ?thesis by simp
qed




text \<open>
  C3. A request that omits both \<open>locale\<close> and \<open>tz\<close> is handled exactly as the request
  with \<open>locale=en-US\<close> and \<open>tz=UTC\<close>: the same calls into \<open>Intl\<close>, the same response,
  and the defaults in the \<open>locale\<close> and \<open>tz\<close> fields of the success body.
\<close>

theorem time_handler_defaults:
  assumes "query req ''locale'' = None" and "query req ''tz'' = None"
  shows "time_handler e req =
           time_handler e \<lparr>query = [''locale'' \<mapsto> ''en-US'', ''tz'' \<mapsto> ''UTC'']\<rparr> \<and>
         hd (fst (time_handler e req)) = DateTimeFormat_call ''en-US'' ''UTC'' \<and>
         (statusCode (snd (time_handler e req)) = 200 \<longrightarrow>
            field (snd (time_handler e req)) ''locale'' = Some ''en-US'' \<and>
            field (snd (time_handler e req)) ''tz'' = Some ''UTC'')"
  using assms
  by (auto simp add: time_handler_def Let_def catch_branch_def json_def
      status_def res_def field_def split: sum.splits)

theorem time_handler_defaults_witness:
  "query \<lparr>query = Map.empty\<rparr> ''locale'' = None \<and> query \<lparr>query = Map.empty\<rparr> ''tz'' = None \<and>
   statusCode (snd (time_handler demo_env \<lparr>query = Map.empty\<rparr>)) = 200 \<and>
   field (snd (time_handler demo_env \<lparr>query = Map.empty\<rparr>)) ''locale'' = Some ''en-US'' \<and>
   field (snd (time_handler demo_env \<lparr>query = Map.empty\<rparr>)) ''tz'' = Some ''UTC''"
proof -
  let ?req = "\<lparr>query = Map.empty\<rparr> :: request"
  have l: "query ?req ''locale'' = None" and t: "query ?req ''tz'' = None" by simp_all
  have s: "statusCode (snd (time_handler demo_env ?req)) = 200"
    by (simp add: time_handler_def Let_def demo_env_def getCurrencyForLocale_def get_property_def
        currencyMap_def js_or_def json_def res_def demo_timestamp)
  from time_handler_defaults [OF l t, of demo_env] s l t show ?thesis by blast
qed

text \<open>
  C9. A \<open>locale\<close> or \<open>tz\<close> parameter that is present but empty is handled exactly as
  if it were absent, since \<open>||\<close> takes the default for every falsy value: the default
  \<open>"en-US"\<close> or \<open>"UTC"\<close> is used and echoed.
\<close>

theorem time_handler_empty_is_absent:
  "(query req ''locale'' = Some [] \<longrightarrow>
      time_handler e req = time_handler e (req\<lparr>query := (query req)(''locale'' := None)\<rparr>) \<and>
      (statusCode (snd (time_handler e req)) = 200 \<longrightarrow>
         field (snd (time_handler e req)) ''locale'' = Some ''en-US'')) \<and>
   (query req ''tz'' = Some [] \<longrightarrow>
      time_handler e req = time_handler e (req\<lparr>query := (query req)(''tz'' := None)\<rparr>) \<and>
      (statusCode (snd (time_handler e req)) = 200 \<longrightarrow>
         field (snd (time_handler e req)) ''tz'' = Some ''UTC''))"
  by (auto simp add: time_handler_def Let_def catch_branch_def json_def
      status_def res_def field_def split: sum.splits)

theorem time_handler_empty_is_absent_witness:
  "query \<lparr>query = [''locale'' \<mapsto> '''', ''tz'' \<mapsto> '''']\<rparr> ''locale'' = Some [] \<and>
   query \<lparr>query = [''locale'' \<mapsto> '''', ''tz'' \<mapsto> '''']\<rparr> ''tz'' = Some [] \<and>
   statusCode (snd (time_handler demo_env \<lparr>query = [''locale'' \<mapsto> '''', ''tz'' \<mapsto> '''']\<rparr>)) = 200 \<and>
   field (snd (time_handler demo_env \<lparr>query = [''locale'' \<mapsto> '''', ''tz'' \<mapsto> '''']\<rparr>)) ''locale''
     = Some ''en-US'' \<and>
   field (snd (time_handler demo_env \<lparr>query = [''locale'' \<mapsto> '''', ''tz'' \<mapsto> '''']\<rparr>)) ''tz''
     = Some ''UTC''"
proof -
  let ?req = "\<lparr>query = [''locale'' \<mapsto> '''', ''tz'' \<mapsto> '''']\<rparr>"
  have l: "query ?req ''locale'' = Some []" and t: "query ?req ''tz'' = Some []" by simp_all
  have s: "statusCode (snd (time_handler demo_env ?req)) = 200"
    by (simp add: time_handler_def Let_def demo_env_def getCurrencyForLocale_def get_property_def
        currencyMap_def js_or_def json_def res_def demo_timestamp)
  from time_handler_empty_is_absent [of ?req demo_env] s l t show ?thesis by blast
qed

text \<open>
  C5. When the request supplies non-empty \<open>locale\<close> and \<open>tz\<close> parameters, the handler
  passes exactly these strings to \<open>Intl.DateTimeFormat\<close> (and the locale to
  \<open>Intl.NumberFormat\<close>) and echoes them in the success body. The restriction to non-empty
  values is needed: an empty parameter is replaced by its default before the call.
\<close>

theorem time_handler_passthrough:
  assumes "query req ''locale'' = Some locale" and "query req ''tz'' = Some tz"
    and "locale \<noteq> []" and "tz \<noteq> []"
  shows "hd (fst (time_handler e req)) = DateTimeFormat_call locale tz \<and>
         set (fst (time_handler e req)) \<subseteq>
           {DateTimeFormat_call locale tz, NumberFormat_call locale (getCurrencyForLocale locale)} \<and>
         (statusCode (snd (time_handler e req)) = 200 \<longrightarrow>
            field (snd (time_handler e req)) ''locale'' = Some locale \<and>
            field (snd (time_handler e req)) ''tz'' = Some tz)"
  using assms
  by (auto simp add: time_handler_def Let_def catch_branch_def json_def
      status_def res_def field_def split: sum.splits)

theorem time_handler_passthrough_witness:
  "fst (time_handler demo_env \<lparr>query = [''locale'' \<mapsto> ''fr-FR'', ''tz'' \<mapsto> ''Europe/Paris'']\<rparr>) =
     [DateTimeFormat_call ''fr-FR'' ''Europe/Paris'', NumberFormat_call ''fr-FR'' (Str ''EUR'')] \<and>
   field (snd (time_handler demo_env \<lparr>query = [''locale'' \<mapsto> ''fr-FR'', ''tz'' \<mapsto> ''Europe/Paris'']\<rparr>))
     ''locale'' = Some ''fr-FR'' \<and>
   field (snd (time_handler demo_env \<lparr>query = [''locale'' \<mapsto> ''fr-FR'', ''tz'' \<mapsto> ''Europe/Paris'']\<rparr>))
     ''tz'' = Some ''Europe/Paris''"
proof -
  let ?req = "\<lparr>query = [''locale'' \<mapsto> ''fr-FR'', ''tz'' \<mapsto> ''Europe/Paris'']\<rparr>"
  have l: "query ?req ''locale'' = Some ''fr-FR''" and t: "query ?req ''tz'' = Some ''Europe/Paris''"
    by simp_all
  have ne: "''fr-FR'' \<noteq> []" "''Europe/Paris'' \<noteq> []" by simp_all
  have s: "statusCode (snd (time_handler demo_env ?req)) = 200"
    and c: "fst (time_handler demo_env ?req) =
      [DateTimeFormat_call ''fr-FR'' ''Europe/Paris'', NumberFormat_call ''fr-FR'' (Str ''EUR'')]"
    by (simp_all add: time_handler_def Let_def demo_env_def getCurrencyForLocale_def get_property_def
        currencyMap_def js_or_def json_def res_def demo_timestamp)
  from time_handler_passthrough [OF l t ne, of demo_env] s c show ?thesis by blast
qed

theorem passthrough_counterexample:
  "query \<lparr>query = [''locale'' \<mapsto> '''', ''tz'' \<mapsto> '''']\<rparr> ''locale'' = Some '''' \<and>
   query \<lparr>query = [''locale'' \<mapsto> '''', ''tz'' \<mapsto> '''']\<rparr> ''tz'' = Some '''' \<and>
   time_handler demo_env \<lparr>query = [''locale'' \<mapsto> '''', ''tz'' \<mapsto> '''']\<rparr> =
     ([DateTimeFormat_call ''en-US'' ''UTC'', NumberFormat_call ''en-US'' (Str ''USD'')],
      \<lparr>statusCode = 200,
       body = Some [(''locale'', ''en-US''), (''tz'', ''UTC''),
                    (''formatted'', ''en-US date in UTC''),
                    (''numberExample'', ''USD 12,345.67''),
                    (''timestamp'', ''2026-11-03T10:00:00.000Z''),
                    (''icuDataPath'', ''built-in'')]\<rparr>)"
  by (simp add: time_handler_def Let_def demo_env_def getCurrencyForLocale_def get_property_def
      currencyMap_def js_or_def json_def res_def demo_timestamp)

section \<open>Properties of the scan script\<close>

lemma pull_status_zero:
  "pull_status w IMAGE = 0"
  by (simp add: pull_status_def or_list_def true_status_def split: prod.split)

lemma pull_image_runs:
  "pull_image w IMAGE t =
     Running (t @ [Exec [''docker'', ''pull'', IMAGE],
                   Exec [''grep'', ''-E'', ''(Digest|Status|Image is up to date)'']]
                @ map Stdout (filter grep_match (snd (docker_pull w IMAGE))))"
  by (simp add: pull_image_def pull_status_zero errexit_def)

lemma filter_trivy_Stdout:
  "filter is_trivy (map Stdout xs) = []"
  by (induction xs) simp_all

lemma filter_both_Stdout:
  "filter (\<lambda>ev. is_docker_pull ev \<or> is_trivy ev) (map Stdout xs) = []"
  by (induction xs) simp_all

lemma trivy_missing_run:
  "trivy_missing w [] =
     Exited 1
       [Echo_e trivy_error_line,
        Echo '''',
        Echo ''Install Trivy:'',
        Echo ''  macOS:   brew install aquasecurity/trivy/trivy'',
        Echo ''  Linux:   wget -qO - https://aquasecurity.github.io/trivy-repo/deb/public.key | sudo apt-key add -'',
        Exec [''lsb_release'', ''-sc''],
        Echo (''           echo '' @ [CHR 0x27] @ ''deb https://aquasecurity.github.io/trivy-repo/deb ''
              @ lsb_release_sc w @ '' main'' @ [CHR 0x27]
              @ '' | sudo tee -a /etc/apt/sources.list.d/trivy.list''),
        Echo ''           sudo apt-get update && sudo apt-get install trivy'',
        Echo ''  Docker:  docker run --rm -v /var/run/docker.sock:/var/run/docker.sock aquasec/trivy image <image>'']"
  by (simp add: trivy_missing_def echo_def echo_e_def exit_with_def trivy_error_line_def)

lemma no_image_run:
  "no_image prog [] =
     Exited 1
       [Echo_e (RED @ ''Error: No image name provided'' @ NC),
        Echo '''',
        Echo (usage_line prog),
        Echo '''',
        Echo ''Examples:'',
        Echo (''  '' @ prog @ '' node:20-bookworm''),
        Echo (''  '' @ prog @ '' demonstrationorg/dhi-node:22-alpine3.22''),
        Echo (''  '' @ prog @ '' dhi-workshop-app-dhi trivy-doi-results.json'')]"
  by (simp add: no_image_def echo_def echo_e_def exit_with_def)

lemma scan_image_no_trivy:
  "\<not> trivy_on_path w \<Longrightarrow> scan_image w prog args = trivy_missing w []"
  by (simp add: scan_image_def trivy_missing_run)

lemma scan_image_no_args:
  "trivy_on_path w \<Longrightarrow> scan_image w prog [] = no_image prog []"
  by (simp add: scan_image_def no_image_run)

lemmas script_defs = scan_image_def scan_main_def scan_def additional_information_def
  run_trivy_def errexit_def echo_def echo_e_def exit_with_def pull_image_runs

lemma pulls_and_scans_table:
  assumes "trivy_on_path w"
  shows "pulls_and_scans (scan_image w prog (IMAGE # [] # rest)) =
           [Exec [''docker'', ''pull'', IMAGE], Exec (''trivy'' # table_scan IMAGE)]"
    and "pulls_and_scans (scan_image w prog [IMAGE]) =
           [Exec [''docker'', ''pull'', IMAGE], Exec (''trivy'' # table_scan IMAGE)]"
  using assms
  by (simp_all add: script_defs pulls_and_scans_def filter_both_Stdout)

lemma pulls_and_scans_json_ok:
  assumes "trivy_on_path w" and "OUTPUT_FILE \<noteq> []"
    and "trivy w (json_scan OUTPUT_FILE IMAGE) = 0"
  shows "pulls_and_scans (scan_image w prog (IMAGE # OUTPUT_FILE # rest)) =
           [Exec [''docker'', ''pull'', IMAGE],
            Exec (''trivy'' # json_scan OUTPUT_FILE IMAGE),
            Exec (''trivy'' # table_scan IMAGE)]"
  using assms
  by (simp add: script_defs pulls_and_scans_def filter_both_Stdout)

lemma pulls_and_scans_json_failed:
  assumes "trivy_on_path w" and "OUTPUT_FILE \<noteq> []"
    and "trivy w (json_scan OUTPUT_FILE IMAGE) \<noteq> 0"
  shows "pulls_and_scans (scan_image w prog (IMAGE # OUTPUT_FILE # rest)) =
           [Exec [''docker'', ''pull'', IMAGE],
            Exec (''trivy'' # json_scan OUTPUT_FILE IMAGE)]"
    and "exit_status (scan_image w prog (IMAGE # OUTPUT_FILE # rest)) =
           trivy w (json_scan OUTPUT_FILE IMAGE)"
  using assms
  by (simp_all add: script_defs pulls_and_scans_def filter_both_Stdout)

text \<open>
  C6. When \<open>trivy\<close> is not on the PATH the script exits with status 1 after printing an
  error and installation instructions, not the usage message, whatever its arguments; when
  \<open>trivy\<close> is on the PATH and there are no positional arguments it exits with status 1
  after printing the usage message. In neither case does it start \<open>docker pull\<close> or the
  scanner.
\<close>

theorem scan_image_prerequisites:
  "(\<not> trivy_on_path w \<longrightarrow>
      exit_status (scan_image w prog args) = 1 \<and>
      Echo_e trivy_error_line \<in> set (trace (scan_image w prog args)) \<and>
      Echo ''Install Trivy:'' \<in> set (trace (scan_image w prog args)) \<and>
      \<not> prints_usage prog (scan_image w prog args) \<and>
      pulls_and_scans (scan_image w prog args) = []) \<and>
   (trivy_on_path w \<and> args = [] \<longrightarrow>
      exit_status (scan_image w prog args) = 1 \<and>
      prints_usage prog (scan_image w prog args) \<and>
      pulls_and_scans (scan_image w prog args) = [])"
proof (intro conjI impI)
  assume a: "\<not> trivy_on_path w"
  note r = scan_image_no_trivy [OF a, of prog args] trivy_missing_run
  show "exit_status (scan_image w prog args) = 1" by (simp add: r)
  show "Echo_e trivy_error_line \<in> set (trace (scan_image w prog args))" by (simp add: r)
  show "Echo ''Install Trivy:'' \<in> set (trace (scan_image w prog args))" by (simp add: r)
  show "\<not> prints_usage prog (scan_image w prog args)"
    by (simp add: r prints_usage_def usage_line_def)
  show "pulls_and_scans (scan_image w prog args) = []"
    by (simp add: r pulls_and_scans_def)
next
  assume "trivy_on_path w \<and> args = []"
  then have r: "scan_image w prog args = no_image prog []"
    by (simp add: scan_image_no_args)
  show "exit_status (scan_image w prog args) = 1" by (simp add: r no_image_run)
  show "prints_usage prog (scan_image w prog args)"
    by (simp add: r no_image_run prints_usage_def)
  show "pulls_and_scans (scan_image w prog args) = []"
    by (simp add: r no_image_run pulls_and_scans_def)
qed

theorem scan_image_prerequisites_witness:
  "\<not> trivy_on_path no_trivy_world \<and>
   exit_status (scan_image no_trivy_world ''./scripts/scan-image.sh'' [''node:20-bookworm'']) = 1 \<and>
   pulls_and_scans (scan_image no_trivy_world ''./scripts/scan-image.sh'' [''node:20-bookworm'']) = [] \<and>
   trivy_on_path good_world \<and>
   exit_status (scan_image good_world ''./scripts/scan-image.sh'' []) = 1 \<and>
   prints_usage ''./scripts/scan-image.sh'' (scan_image good_world ''./scripts/scan-image.sh'' []) \<and>
   pulls_and_scans (scan_image good_world ''./scripts/scan-image.sh'' []) = []"
proof -
  have a: "\<not> trivy_on_path no_trivy_world" by (simp add: no_trivy_world_def)
  have b: "trivy_on_path good_world \<and> ([]::string list) = []" by (simp add: good_world_def)
  from scan_image_prerequisites [of no_trivy_world "''./scripts/scan-image.sh''" "[''node:20-bookworm'']"]
    scan_image_prerequisites [of good_world "''./scripts/scan-image.sh''" "[]"] a b
  show ?thesis by blast
qed

theorem usage_counterexample:
  "\<not> trivy_on_path no_trivy_world \<and>
   exit_status (scan_image no_trivy_world ''./scripts/scan-image.sh'' []) = 1 \<and>
   \<not> prints_usage ''./scripts/scan-image.sh'' (scan_image no_trivy_world ''./scripts/scan-image.sh'' [])"
proof -
  have a: "\<not> trivy_on_path no_trivy_world" by (simp add: no_trivy_world_def)
  note r = scan_image_no_trivy [OF a, of "''./scripts/scan-image.sh''" "[]"] trivy_missing_run
  show ?thesis
    by (simp add: a r prints_usage_def usage_line_def)
qed

lemma no_report_Stdout:
  "filter (\<lambda>ev. report_of w ev \<noteq> None) (map Stdout xs) = []"
  by (induction xs) (simp_all add: report_of_def)

lemmas report_defs = reports_written_def List.map_filter_def report_of_def no_report_Stdout
  json_scan_def table_scan_def

lemma reports_written_json:
  assumes "trivy_on_path w" and "OUTPUT_FILE \<noteq> []"
    and "trivy w (json_scan OUTPUT_FILE IMAGE) = 0"
  shows "reports_written w (scan_image w prog (IMAGE # OUTPUT_FILE # rest)) = [OUTPUT_FILE]"
proof (cases "trivy w (table_scan IMAGE) = 0")
  case True
  with assms show ?thesis by (simp add: script_defs report_defs)
next
  case False
  with assms show ?thesis by (simp add: script_defs report_defs)
qed

lemma reports_written_table:
  assumes "trivy_on_path w"
  shows "reports_written w (scan_image w prog [IMAGE]) = []"
    and "reports_written w (scan_image w prog (IMAGE # [] # rest)) = []"
  using assms by (simp_all add: script_defs report_defs)

text \<open>
  C7. With \<open>trivy\<close> on the PATH, an image and a non-empty output file, the script pulls
  the image and runs the scanner in JSON format with \<open>-o\<close> the output file. When that scan
  exits with 0 its report is the one file the run leaves, at the path of the output file,
  and the script then runs the scanner in table format, two scans in all; when that scan
  fails the script stops there with the scan's status, after one scan. With no output
  file, or an empty one, it pulls the image, runs the scanner once, in table format, and
  leaves no file.
\<close>

theorem scan_image_scans:
  assumes "trivy_on_path w"
  shows "(OUTPUT_FILE \<noteq> [] \<and>
          trivy w [''image'', ''--severity'', ''HIGH,CRITICAL'', ''--no-progress'',
                   ''--format'', ''json'', ''-o'', OUTPUT_FILE, IMAGE] = 0 \<longrightarrow>
            pulls_and_scans (scan_image w prog (IMAGE # OUTPUT_FILE # rest)) =
              [Exec [''docker'', ''pull'', IMAGE],
               Exec [''trivy'', ''image'', ''--severity'', ''HIGH,CRITICAL'', ''--no-progress'',
                     ''--format'', ''json'', ''-o'', OUTPUT_FILE, IMAGE],
               Exec [''trivy'', ''image'', ''--severity'', ''HIGH,CRITICAL'', ''--no-progress'',
                     ''--format'', ''table'', IMAGE]] \<and>
            reports_written w (scan_image w prog (IMAGE # OUTPUT_FILE # rest)) = [OUTPUT_FILE]) \<and>
         (OUTPUT_FILE \<noteq> [] \<and>
          trivy w [''image'', ''--severity'', ''HIGH,CRITICAL'', ''--no-progress'',
                   ''--format'', ''json'', ''-o'', OUTPUT_FILE, IMAGE] \<noteq> 0 \<longrightarrow>
            pulls_and_scans (scan_image w prog (IMAGE # OUTPUT_FILE # rest)) =
              [Exec [''docker'', ''pull'', IMAGE],
               Exec [''trivy'', ''image'', ''--severity'', ''HIGH,CRITICAL'', ''--no-progress'',
                     ''--format'', ''json'', ''-o'', OUTPUT_FILE, IMAGE]] \<and>
            exit_status (scan_image w prog (IMAGE # OUTPUT_FILE # rest)) =
              trivy w [''image'', ''--severity'', ''HIGH,CRITICAL'', ''--no-progress'',
                       ''--format'', ''json'', ''-o'', OUTPUT_FILE, IMAGE]) \<and>
         pulls_and_scans (scan_image w prog [IMAGE]) =
           [Exec [''docker'', ''pull'', IMAGE],
            Exec [''trivy'', ''image'', ''--severity'', ''HIGH,CRITICAL'', ''--no-progress'',
                  ''--format'', ''table'', IMAGE]] \<and>
         reports_written w (scan_image w prog [IMAGE]) = [] \<and>
         pulls_and_scans (scan_image w prog (IMAGE # [] # rest)) =
           [Exec [''docker'', ''pull'', IMAGE],
            Exec [''trivy'', ''image'', ''--severity'', ''HIGH,CRITICAL'', ''--no-progress'',
                  ''--format'', ''table'', IMAGE]] \<and>
         reports_written w (scan_image w prog (IMAGE # [] # rest)) = []"
proof -
  have j: "[''image'', ''--severity'', ''HIGH,CRITICAL'', ''--no-progress'',
            ''--format'', ''json'', ''-o'', OUTPUT_FILE, IMAGE] = json_scan OUTPUT_FILE IMAGE"
    and t: "[''image'', ''--severity'', ''HIGH,CRITICAL'', ''--no-progress'',
             ''--format'', ''table'', IMAGE] = table_scan IMAGE"
    by (simp_all add: json_scan_def table_scan_def)
  show ?thesis
    unfolding j t using assms
    by (simp add: pulls_and_scans_table pulls_and_scans_json_ok pulls_and_scans_json_failed
        reports_written_json reports_written_table)
qed

theorem scan_image_scans_witness:
  "trivy_on_path good_world \<and> ''out.json'' \<noteq> [] \<and>
   trivy good_world [''image'', ''--severity'', ''HIGH,CRITICAL'', ''--no-progress'',
                     ''--format'', ''json'', ''-o'', ''out.json'', ''node:20-bookworm''] = 0 \<and>
   pulls_and_scans (scan_image good_world ''./scripts/scan-image.sh'' [''node:20-bookworm'', ''out.json'']) =
     [Exec [''docker'', ''pull'', ''node:20-bookworm''],
      Exec [''trivy'', ''image'', ''--severity'', ''HIGH,CRITICAL'', ''--no-progress'',
            ''--format'', ''json'', ''-o'', ''out.json'', ''node:20-bookworm''],
      Exec [''trivy'', ''image'', ''--severity'', ''HIGH,CRITICAL'', ''--no-progress'',
            ''--format'', ''table'', ''node:20-bookworm'']] \<and>
   reports_written good_world
     (scan_image good_world ''./scripts/scan-image.sh'' [''node:20-bookworm'', ''out.json'']) =
     [''out.json''] \<and>
   trivy_on_path missing_image_world \<and>
   trivy missing_image_world [''image'', ''--severity'', ''HIGH,CRITICAL'', ''--no-progress'',
                              ''--format'', ''json'', ''-o'', ''out.json'', ''no/such:image''] \<noteq> 0 \<and>
   pulls_and_scans (scan_image missing_image_world ''./scripts/scan-image.sh'' [''no/such:image'', ''out.json'']) =
     [Exec [''docker'', ''pull'', ''no/such:image''],
      Exec [''trivy'', ''image'', ''--severity'', ''HIGH,CRITICAL'', ''--no-progress'',
            ''--format'', ''json'', ''-o'', ''out.json'', ''no/such:image'']]"
proof -
  have g: "trivy_on_path good_world" and m: "trivy_on_path missing_image_world"
    by (simp_all add: good_world_def missing_image_world_def)
  have o: "''out.json'' \<noteq> []" by simp
  have g0: "trivy good_world [''image'', ''--severity'', ''HIGH,CRITICAL'', ''--no-progress'',
                     ''--format'', ''json'', ''-o'', ''out.json'', ''node:20-bookworm''] = 0"
    by (simp add: good_world_def)
  have m1: "trivy missing_image_world [''image'', ''--severity'', ''HIGH,CRITICAL'',
      ''--no-progress'', ''--format'', ''json'', ''-o'', ''out.json'', ''no/such:image''] \<noteq> 0"
    by (simp add: missing_image_world_def)
  from scan_image_scans [OF g, of "''out.json''" "''node:20-bookworm''" "''./scripts/scan-image.sh''" "[]"]
    scan_image_scans [OF m, of "''out.json''" "''no/such:image''" "''./scripts/scan-image.sh''" "[]"]
    g m o g0 m1
  show ?thesis by blast
qed

theorem scan_twice_counterexample:
  "trivy_on_path missing_image_world \<and>
   scans (scan_image missing_image_world ''./scripts/scan-image.sh'' [''no/such:image'', ''out.json'']) =
     [Exec [''trivy'', ''image'', ''--severity'', ''HIGH,CRITICAL'', ''--no-progress'',
            ''--format'', ''json'', ''-o'', ''out.json'', ''no/such:image'']] \<and>
   exit_status (scan_image missing_image_world ''./scripts/scan-image.sh'' [''no/such:image'', ''out.json'']) = 1"
proof -
  have m: "trivy_on_path missing_image_world"
    and m1: "trivy missing_image_world (json_scan ''out.json'' ''no/such:image'') = 1"
    by (simp_all add: missing_image_world_def)
  have "scans (scan_image missing_image_world ''./scripts/scan-image.sh'' [''no/such:image'', ''out.json'']) =
     [Exec (''trivy'' # json_scan ''out.json'' ''no/such:image'')]"
    using m m1 by (simp add: script_defs scans_def filter_trivy_Stdout)
  moreover have "exit_status (scan_image missing_image_world ''./scripts/scan-image.sh''
      [''no/such:image'', ''out.json'']) = 1"
    using m m1 by (simp add: script_defs)
  ultimately show ?thesis using m by (simp add: json_scan_def)
qed

text \<open>
  C10. A failure of the image pull never stops the script: whatever \<open>docker pull\<close> and
  \<open>grep\<close> return, the status of the pull line is 0 because of \<open>|| true\<close>, and with
  \<open>trivy\<close> on the PATH and an image given, the script goes on from the pull to start
  the scanner on that image.
\<close>

theorem pull_failure_does_not_abort:
  assumes "trivy_on_path w"
  shows "pull_status w IMAGE = 0 \<and>
         take 2 (pulls_and_scans (scan_image w prog (IMAGE # rest))) =
           [Exec [''docker'', ''pull'', IMAGE],
            Exec (''trivy'' #
              (case rest of
                 [] \<Rightarrow> table_scan IMAGE
               | f # _ \<Rightarrow> if f \<noteq> [] then json_scan f IMAGE else table_scan IMAGE))]"
proof (intro conjI)
  show "pull_status w IMAGE = 0" by (rule pull_status_zero)
next
  show "take 2 (pulls_and_scans (scan_image w prog (IMAGE # rest))) =
           [Exec [''docker'', ''pull'', IMAGE],
            Exec (''trivy'' #
              (case rest of
                 [] \<Rightarrow> table_scan IMAGE
               | f # _ \<Rightarrow> if f \<noteq> [] then json_scan f IMAGE else table_scan IMAGE))]"
  proof (cases rest)
    case Nil
    then show ?thesis using assms by (simp add: pulls_and_scans_table)
  next
    case (Cons f rs)
    show ?thesis
    proof (cases "f = []")
      case True
      with Cons assms show ?thesis by (simp add: pulls_and_scans_table)
    next
      case False
      show ?thesis
      proof (cases "trivy w (json_scan f IMAGE) = 0")
        case True
        with Cons False assms show ?thesis by (simp add: pulls_and_scans_json_ok)
      next
        case nz: False
        with Cons False assms show ?thesis by (simp add: pulls_and_scans_json_failed)
      qed
    qed
  qed
qed

theorem pull_failure_does_not_abort_witness:
  "trivy_on_path missing_image_world \<and>
   fst (docker_pull missing_image_world ''no/such:image'') = 1 \<and>
   pull_status missing_image_world ''no/such:image'' = 0 \<and>
   take 2 (pulls_and_scans (scan_image missing_image_world ''./scripts/scan-image.sh'' [''no/such:image''])) =
     [Exec [''docker'', ''pull'', ''no/such:image''],
      Exec (''trivy'' # table_scan ''no/such:image'')]"
proof -
  have m: "trivy_on_path missing_image_world"
    and d: "fst (docker_pull missing_image_world ''no/such:image'') = 1"
    by (simp_all add: missing_image_world_def)
  from pull_failure_does_not_abort [OF m, of "''no/such:image''" "''./scripts/scan-image.sh''" "[]"] m d
  show ?thesis by simp
qed

end
